theory Spec2Isabelle
  imports Main "HOL-Library.Char_ord" "HOL-Library.List_Lexorder"
begin

section \<open>Python values, errors and dictionaries\<close>

text \<open>
  The label transformer of \<^verbatim>\<open>federatedml/util/label_transform.py\<close> works on label
  values that are Python objects. The values of this development are \<^verbatim>\<open>None\<close>, the
  unbounded integers and the text strings. Floating-point labels are outside the
  embedding: their printing, parsing and rounding have no counterpart here, so no
  statement below speaks about them. A Python \<^verbatim>\<open>str\<close> is a \<open>string\<close> whose characters
  stand for code points.
\<close>

datatype pyval = PNone | PInt int | PStr string

text \<open>Every \<^verbatim>\<open>raise\<close> of the source, and every exception of a Python primitive it
  uses, is a value of \<open>error\<close>. \<open>Unsupported\<close> is returned only by the concrete
  stand-in for numpy defined further down, never by a function of the component.\<close>

datatype error =
    TypeError
  | ValueError string
  | KeyError pyval
  | AttributeError
  | IndexError
  | Unsupported

text \<open>\<^verbatim>\<open>type(v).__name__\<close> and \<^verbatim>\<open>str(v)\<close>.\<close>

fun type_name :: "pyval \<Rightarrow> string" where
  "type_name PNone = ''NoneType''"
| "type_name (PInt i) = ''int''"
| "type_name (PStr s) = ''str''"

fun str_nat :: "nat \<Rightarrow> string" where
  "str_nat n =
     (if n < 10 then [''0123456789'' ! n]
      else str_nat (n div 10) @ [''0123456789'' ! (n mod 10)])"

definition str_int :: "int \<Rightarrow> string" where
  "str_int i = (if i < 0 then CHR ''-'' # str_nat (nat (- i)) else str_nat (nat i))"

fun py_str :: "pyval \<Rightarrow> string" where
  "py_str PNone = ''None''"
| "py_str (PInt i) = str_int i"
| "py_str (PStr s) = s"

text \<open>
  A \<^verbatim>\<open>dict\<close> is an association list in insertion order with pairwise distinct keys.
  \<open>dict_set\<close> is \<^verbatim>\<open>d[k] = v\<close>: an existing key keeps its position, a new key is
  appended. \<open>dict_of\<close> is \<^verbatim>\<open>dict(pairs)\<close> and the final step of a dict
  comprehension: a later pair with the same key overwrites the value of the earlier one.
\<close>

type_synonym ('k, 'v) dict = "('k \<times> 'v) list"

definition dict_get :: "('k, 'v) dict \<Rightarrow> 'k \<Rightarrow> 'v option" where
  "dict_get d k = map_of d k"

fun dict_set :: "('k, 'v) dict \<Rightarrow> 'k \<Rightarrow> 'v \<Rightarrow> ('k, 'v) dict" where
  "dict_set [] k v = [(k, v)]"
| "dict_set ((k', v') # d) k v =
     (if k' = k then (k', v) # d else (k', v') # dict_set d k v)"

definition dict_of :: "('k \<times> 'v) list \<Rightarrow> ('k, 'v) dict" where
  "dict_of ps = foldl (\<lambda>d (k, v). dict_set d k v) [] ps"

definition keys :: "('k, 'v) dict \<Rightarrow> 'k list" where
  "keys d = map fst d"

definition vals :: "('k, 'v) dict \<Rightarrow> 'v list" where
  "vals d = map snd d"

text \<open>\<^verbatim>\<open>d[k]\<close> on a Python dict raises \<^verbatim>\<open>KeyError\<close> for a missing key.\<close>

definition getitem :: "(pyval, 'v) dict \<Rightarrow> pyval \<Rightarrow> error + 'v" where
  "getitem d k = (case dict_get d k of None \<Rightarrow> Inl (KeyError k) | Some v \<Rightarrow> Inr v)"

text \<open>A comprehension evaluates its element expression item by item, in order, and the
  first exception ends it.\<close>

fun for_each :: "('a \<Rightarrow> error + 'b) \<Rightarrow> 'a list \<Rightarrow> error + 'b list" where
  "for_each f [] = Inr []"
| "for_each f (x # xs) =
     (case f x of
        Inl e \<Rightarrow> Inl e
      | Inr y \<Rightarrow> (case for_each f xs of Inl e \<Rightarrow> Inl e | Inr ys \<Rightarrow> Inr (y # ys)))"

section \<open>The typed-parse rule\<close>

text \<open>
  \<^verbatim>\<open>load_value_to_type(value, value_type)\<close>. The numeric branch is
  \<^verbatim>\<open>getattr(np, value_type)(value)\<close>: numpy is a library outside the repository, so the
  lookup of the constructor and its call are the parameter \<open>np\<close>.
\<close>

type_synonym numpy = "string \<Rightarrow> pyval \<Rightarrow> error + pyval"

definition load_value_to_type :: "numpy \<Rightarrow> pyval \<Rightarrow> string \<Rightarrow> error + pyval" where
  "load_value_to_type np v value_type =
     (if v = PNone then Inr PNone
      else if value_type \<in> set [''int'', ''int64'', ''long'', ''float'', ''float64'', ''double'']
        then np value_type v
      else if value_type \<in> set [''str'', ''_str''] then Inr (PStr (py_str v))
      else Inl (ValueError (''unknown value type: '' @ value_type)))"

text \<open>
  A stand-in for numpy on the values of this development, for evaluating examples:
  \<^verbatim>\<open>np.int\<close> and \<^verbatim>\<open>np.long\<close> are aliases of the builtin \<^verbatim>\<open>int\<close>, which returns an
  integer argument as it is. Every other call is reported as \<open>Unsupported\<close>.
\<close>

definition np_int_alias :: numpy where
  "np_int_alias t v =
     (case v of
        PInt i \<Rightarrow> if t = ''int'' \<or> t = ''long'' then Inr (PInt i) else Inl Unsupported
      | _ \<Rightarrow> Inl Unsupported)"

section \<open>Records, datasets and the helpers of discovery\<close>

text \<open>
  A TrainingRecord is an \<^verbatim>\<open>Instance\<close> with a label field and a feature payload; a
  PredictionResult is the list \<^verbatim>\<open>[true_label, predict_label, predict_score,
  predict_detail]\<close>. Scores and features are opaque to the component, so their types
  are parameters.
\<close>

record 'a Instance =
  label :: pyval
  features :: 'a

record 's predict_result =
  true_label :: pyval
  predict_label :: pyval
  predict_score :: 's
  predict_detail :: "(pyval, 's) dict"

datatype ('a, 's) row_value = TrainingRecord "'a Instance" | PredictionResult "'s predict_result"

text \<open>\<^verbatim>\<open>isinstance(v, Instance)\<close>.\<close>

fun isinstance_Instance :: "('a, 's) row_value \<Rightarrow> bool" where
  "isinstance_Instance (TrainingRecord i) = True"
| "isinstance_Instance (PredictionResult p) = False"

text \<open>
  The distributed table is a collaborator outside the repository slice: a sequence of
  keyed values and a schema attribute. \<open>first\<close> is \<^verbatim>\<open>data.first()\<close>, which has no
  record to return on an empty table, so that the subscript \<^verbatim>\<open>[1]\<close> applied to it
  raises. \<open>mapValues\<close> applies a function to every value and keeps the keys; an
  exception in the function is the exception of the whole call. The new table starts
  with an empty schema.
\<close>

record ('a, 's) table =
  rows :: "(string \<times> ('a, 's) row_value) list"
  schema :: "string list"

definition first :: "('a, 's) table \<Rightarrow> error + (string \<times> ('a, 's) row_value)" where
  "first data = (case rows data of [] \<Rightarrow> Inl TypeError | r # rs \<Rightarrow> Inr r)"

definition mapValues ::
  "(('a, 's) row_value \<Rightarrow> error + ('a, 's) row_value) \<Rightarrow> ('a, 's) table \<Rightarrow> error + ('a, 's) table" where
  "mapValues f data =
     (case for_each (\<lambda>(k, v). case f v of Inl e \<Rightarrow> Inl e | Inr v' \<Rightarrow> Inr (k, v')) (rows data) of
        Inl e \<Rightarrow> Inl e
      | Inr rs \<Rightarrow> Inr \<lparr>rows = rs, schema = []\<rparr>)"

text \<open>
  Modelled from the spec: \<^verbatim>\<open>get_label_count\<close> of
  \<^verbatim>\<open>federatedml/statistic/data_overview.py\<close> is not part of the slice. The spec has it
  compute the multiset of label field values across all records; its keys are the
  distinct labels. Reading \<^verbatim>\<open>.label\<close> of a record that is not an Instance raises.
\<close>

fun count_labels ::
  "(string \<times> ('a, 's) row_value) list \<Rightarrow> (pyval, nat) dict \<Rightarrow> error + (pyval, nat) dict" where
  "count_labels [] d = Inr d"
| "count_labels ((k, v) # rs) d =
     (case v of
        TrainingRecord inst \<Rightarrow>
          count_labels rs
            (dict_set d (label inst) (case dict_get d (label inst) of None \<Rightarrow> 1 | Some c \<Rightarrow> c + 1))
      | PredictionResult p \<Rightarrow> Inl AttributeError)"

definition get_label_count :: "('a, 's) table \<Rightarrow> error + (pyval, nat) dict" where
  "get_label_count data = count_labels (rows data) []"

text \<open>
  Modelled from the spec: \<^verbatim>\<open>get_predict_result_labels\<close> of the same absent module. The
  spec has it compute the union of \<^verbatim>\<open>true_label\<close>, \<^verbatim>\<open>predicted_label\<close> and the key
  set of every \<^verbatim>\<open>predicted_detail\<close> across all records. The Python set is a list
  without repetitions; its order is immaterial because the caller sorts it. Unpacking
  a record that is not a PredictionResult raises.
\<close>

definition set_add :: "'a list \<Rightarrow> 'a \<Rightarrow> 'a list" where
  "set_add s x = (if x \<in> set s then s else s @ [x])"

fun collect_labels ::
  "(string \<times> ('a, 's) row_value) list \<Rightarrow> pyval list \<Rightarrow> error + pyval list" where
  "collect_labels [] s = Inr s"
| "collect_labels ((k, v) # rs) s =
     (case v of
        PredictionResult p \<Rightarrow>
          collect_labels rs
            (foldl set_add (set_add (set_add s (true_label p)) (predict_label p))
               (keys (predict_detail p)))
      | TrainingRecord inst \<Rightarrow> Inl TypeError)"

definition get_predict_result_labels :: "('a, 's) table \<Rightarrow> error + pyval list" where
  "get_predict_result_labels data = collect_labels (rows data) []"

text \<open>
  \<^verbatim>\<open>sorted(labels)\<close>. Integers are ordered numerically and strings by code point,
  lexicographically; \<^verbatim>\<open><\<close> between an integer and a string, or with \<^verbatim>\<open>None\<close> on either
  side, raises \<^verbatim>\<open>TypeError\<close>. A list of at most one element is sorted without any
  comparison.
\<close>

fun is_int :: "pyval \<Rightarrow> bool" where
  "is_int (PInt i) = True"
| "is_int v = False"

fun is_str :: "pyval \<Rightarrow> bool" where
  "is_str (PStr s) = True"
| "is_str v = False"

fun int_of :: "pyval \<Rightarrow> int" where
  "int_of (PInt i) = i"
| "int_of v = 0"

fun str_of :: "pyval \<Rightarrow> string" where
  "str_of (PStr s) = s"
| "str_of v = []"

definition sorted_py :: "pyval list \<Rightarrow> error + pyval list" where
  "sorted_py xs =
     (if list_all is_int xs then Inr (map PInt (sort (map int_of xs)))
      else if list_all is_str xs then Inr (map PStr (sort (map str_of xs)))
      else if length xs \<le> 1 then Inr xs
      else Inl TypeError)"

section \<open>The component state\<close>

text \<open>
  The type-tag side maps are Python dicts when \<^verbatim>\<open>get_label_encoder\<close> builds them and
  protobuf string maps when \<^verbatim>\<open>load_model\<close> takes them from the persisted record.
  Subscripting a Python dict with a missing key raises \<^verbatim>\<open>KeyError\<close>; subscripting a
  protobuf scalar map yields the default value of its value type, the empty string.
\<close>

datatype tagmap = PyDict "(string, string) dict" | PbMap "(string, string) dict"

fun entries :: "tagmap \<Rightarrow> (string, string) dict" where
  "entries (PyDict d) = d"
| "entries (PbMap d) = d"

fun tag_getitem :: "tagmap \<Rightarrow> string \<Rightarrow> error + string" where
  "tag_getitem (PyDict d) k =
     (case dict_get d k of None \<Rightarrow> Inl (KeyError (PStr k)) | Some t \<Rightarrow> Inr t)"
| "tag_getitem (PbMap d) k = (case dict_get d k of None \<Rightarrow> Inr [] | Some t \<Rightarrow> Inr t)"

text \<open>The two persisted records, \<^verbatim>\<open>LabelTransformMeta\<close> and
  \<^verbatim>\<open>LabelTransformParam\<close>, and the dictionary \<^verbatim>\<open>export_model\<close> returns.\<close>

record LabelTransformMeta =
  pb_need_run :: bool

record LabelTransformParam =
  pb_label_encoder :: "(string, string) dict"
  pb_encoder_key_type :: "(string, string) dict"
  pb_encoder_value_type :: "(string, string) dict"

datatype pb_message = MetaMsg LabelTransformMeta | ParamMsg LabelTransformParam

type_synonym model_output = "(string, pb_message) dict"

definition model_meta_name :: string where
  "model_meta_name = ''LabelTransformMeta''"

definition model_param_name :: string where
  "model_param_name = ''LabelTransformParam''"

text \<open>The fields of \<^verbatim>\<open>LabelTransformer\<close> that the methods below read or assign.\<close>

record transformer =
  label_encoder :: "(pyval, pyval) dict option"
  label_list :: "pyval list option"
  need_run :: bool
  encoder_key_type :: "tagmap option"
  encoder_value_type :: "tagmap option"
  model_output :: "model_output option"

text \<open>\<^verbatim>\<open>__init__\<close> followed by \<^verbatim>\<open>_init_model(params)\<close>: the three configuration values
  are copied, the type maps start as \<^verbatim>\<open>None\<close>.\<close>

definition init_model :: "(pyval, pyval) dict option \<Rightarrow> pyval list option \<Rightarrow> bool \<Rightarrow> transformer" where
  "init_model p_label_encoder p_label_list p_need_run =
     \<lparr>label_encoder = p_label_encoder, label_list = p_label_list, need_run = p_need_run,
      encoder_key_type = None, encoder_value_type = None, model_output = None\<rparr>"

section \<open>Building the encoder\<close>

text \<open>Lines 57 to 62 of \<^verbatim>\<open>get_label_encoder\<close>: the sorted distinct labels of the
  dataset, by the kind of its first record.\<close>

definition discover_labels :: "('a, 's) table \<Rightarrow> error + pyval list" where
  "discover_labels data =
     (case first data of
        Inl e \<Rightarrow> Inl e
      | Inr (k, v) \<Rightarrow>
          if isinstance_Instance v then
            (case get_label_count data of
               Inl e \<Rightarrow> Inl e
             | Inr label_count \<Rightarrow> sorted_py (keys label_count))
          else
            (case get_predict_result_labels data of
               Inl e \<Rightarrow> Inl e
             | Inr labels \<Rightarrow> sorted_py labels))"

text \<open>Lines 51 to 63: with an encoder supplied, the key tags are taken from the label
  list when there is one; without, the encoder is
  \<^verbatim>\<open>dict(zip(labels, range(len(labels))))\<close>.\<close>

definition obtain_encoder ::
  "transformer \<Rightarrow> ('a, 's) table \<Rightarrow> error + (transformer \<times> (pyval, pyval) dict)" where
  "obtain_encoder self data =
     (case label_encoder self of
        Some enc \<Rightarrow>
          (case label_list self of
             Some ll \<Rightarrow>
               Inr (self\<lparr>encoder_key_type :=
                      Some (PyDict (dict_of (map (\<lambda>v. (py_str v, type_name v)) ll)))\<rparr>, enc)
           | None \<Rightarrow> Inr (self, enc))
      | None \<Rightarrow>
          (case discover_labels data of
             Inl e \<Rightarrow> Inl e
           | Inr labels \<Rightarrow>
               (let enc = dict_of (zip labels (map (\<lambda>n. PInt (int n)) [0..<length labels]))
                in Inr (self\<lparr>label_encoder := Some enc\<rparr>, enc))))"

text \<open>Lines 65 to 67: the key tags are built from the encoder only when the component
  has none yet; the value tags are always rebuilt.\<close>

definition key_tags :: "transformer \<Rightarrow> (pyval, pyval) dict \<Rightarrow> tagmap" where
  "key_tags self enc =
     (case encoder_key_type self of
        None \<Rightarrow> PyDict (dict_of (map (\<lambda>k. (py_str k, type_name k)) (keys enc)))
      | Some key_type \<Rightarrow> key_type)"

definition value_tags :: "(pyval, pyval) dict \<Rightarrow> tagmap" where
  "value_tags enc = PyDict (dict_of (map (\<lambda>(k, v). (py_str k, type_name v)) enc))"

text \<open>Line 69: every key is parsed to the type its tag names.\<close>

definition retype_keys :: "numpy \<Rightarrow> tagmap \<Rightarrow> (pyval, pyval) dict \<Rightarrow> error + (pyval, pyval) dict" where
  "retype_keys np key_type enc =
     (case for_each
             (\<lambda>(k, v). case tag_getitem key_type (py_str k) of
                          Inl e \<Rightarrow> Inl e
                        | Inr t \<Rightarrow> (case load_value_to_type np k t of
                                      Inl e \<Rightarrow> Inl e
                                    | Inr k' \<Rightarrow> Inr (k', v)))
             enc of
        Inl e \<Rightarrow> Inl e
      | Inr ps \<Rightarrow> Inr (dict_of ps))"

text \<open>\<^verbatim>\<open>get_label_encoder(self, data)\<close>: the result and the component as the call
  leaves it, also when it raises.\<close>

definition get_label_encoder ::
  "numpy \<Rightarrow> transformer \<Rightarrow> ('a, 's) table \<Rightarrow> (error + (pyval, pyval) dict) \<times> transformer" where
  "get_label_encoder np self data =
     (case obtain_encoder self data of
        Inl e \<Rightarrow> (Inl e, self)
      | Inr (s1, enc) \<Rightarrow>
          (let s2 = s1\<lparr>encoder_key_type := Some (key_tags s1 enc),
                       encoder_value_type := Some (value_tags enc)\<rparr>
           in (retype_keys np (key_tags s1 enc) enc, s2)))"

section \<open>The transform engine\<close>

text \<open>\<^verbatim>\<open>replace_instance_label\<close>: a copy of the record with the label looked up in the
  map. Reading \<^verbatim>\<open>.label\<close> of a list raises.\<close>

definition replace_instance_label ::
  "('a, 's) row_value \<Rightarrow> (pyval, pyval) dict \<Rightarrow> error + ('a, 's) row_value" where
  "replace_instance_label v enc =
     (case v of
        TrainingRecord inst \<Rightarrow>
          (case getitem enc (label inst) of
             Inl e \<Rightarrow> Inl e
           | Inr l \<Rightarrow> Inr (TrainingRecord (inst\<lparr>label := l\<rparr>)))
      | PredictionResult p \<Rightarrow> Inl AttributeError)"

text \<open>\<^verbatim>\<open>replace_predict_label\<close>: the copy is unpacked into four names (an Instance
  cannot be unpacked), the two labels are looked up from left to right, then the
  detail dictionary is rebuilt key by key.\<close>

definition replace_predict_label ::
  "('a, 's) row_value \<Rightarrow> (pyval, pyval) dict \<Rightarrow> error + ('a, 's) row_value" where
  "replace_predict_label v enc =
     (case v of
        TrainingRecord inst \<Rightarrow> Inl TypeError
      | PredictionResult p \<Rightarrow>
          (case getitem enc (true_label p) of
             Inl e \<Rightarrow> Inl e
           | Inr t \<Rightarrow>
               (case getitem enc (predict_label p) of
                  Inl e \<Rightarrow> Inl e
                | Inr q \<Rightarrow>
                    (case for_each
                            (\<lambda>(l, score). case getitem enc l of
                                             Inl e \<Rightarrow> Inl e
                                           | Inr l' \<Rightarrow> Inr (l', score))
                            (predict_detail p) of
                       Inl e \<Rightarrow> Inl e
                     | Inr ps \<Rightarrow>
                         Inr (PredictionResult
                                \<lparr>true_label = t, predict_label = q,
                                 predict_score = predict_score p,
                                 predict_detail = dict_of ps\<rparr>)))))"

definition transform_data_label ::
  "('a, 's) table \<Rightarrow> (pyval, pyval) dict \<Rightarrow> error + ('a, 's) table" where
  "transform_data_label data enc =
     (case first data of
        Inl e \<Rightarrow> Inl e
      | Inr (k, v) \<Rightarrow>
          if isinstance_Instance v
          then mapValues (\<lambda>v. replace_instance_label v enc) data
          else mapValues (\<lambda>v. replace_predict_label v enc) data)"

text \<open>\<^verbatim>\<open>dict(zip(self.label_encoder.values(), self.label_encoder.keys()))\<close>, the map
  \<^verbatim>\<open>transform\<close> uses on prediction results.\<close>

definition inverse_encoder :: "(pyval, pyval) dict \<Rightarrow> (pyval, pyval) dict" where
  "inverse_encoder enc = dict_of (zip (vals enc) (keys enc))"

text \<open>\<^verbatim>\<open>transform(self, data)\<close>. It assigns no field of the component. The metric
  emission of \<^verbatim>\<open>callback_info\<close> goes to a tracker outside the slice and is left out,
  here and in \<open>fit\<close>.\<close>

definition transform :: "transformer \<Rightarrow> ('a, 's) table \<Rightarrow> error + ('a, 's) table" where
  "transform self data =
     (case label_encoder self of
        None \<Rightarrow> Inl (ValueError ''Input Label Encoder is None. Label Transform aborted.'')
      | Some enc \<Rightarrow>
          (case first data of
             Inl e \<Rightarrow> Inl e
           | Inr (k, v) \<Rightarrow>
               (let enc' = (if \<not> isinstance_Instance v then inverse_encoder enc else enc)
                in case transform_data_label data enc' of
                     Inl e \<Rightarrow> Inl e
                   | Inr result_data \<Rightarrow> Inr (result_data\<lparr>schema := schema data\<rparr>))))"

text \<open>\<^verbatim>\<open>fit(self, data)\<close>: the encoder returned by \<^verbatim>\<open>get_label_encoder\<close> is assigned
  to the component and applied as it is.\<close>

definition fit ::
  "numpy \<Rightarrow> transformer \<Rightarrow> ('a, 's) table \<Rightarrow> (error + ('a, 's) table) \<times> transformer" where
  "fit np self data =
     (case get_label_encoder np self data of
        (Inl e, s1) \<Rightarrow> (Inl e, s1)
      | (Inr enc, s1) \<Rightarrow>
          (let s2 = s1\<lparr>label_encoder := Some enc\<rparr>
           in case transform_data_label data enc of
                Inl e \<Rightarrow> (Inl e, s2)
              | Inr result_data \<Rightarrow> (Inr (result_data\<lparr>schema := schema data\<rparr>), s2)))"

section \<open>Persistence\<close>

definition get_meta :: "transformer \<Rightarrow> LabelTransformMeta" where
  "get_meta self = \<lparr>pb_need_run = need_run self\<rparr>"

text \<open>
  The target list \<^verbatim>\<open>k, v\<close> of the comprehension in \<^verbatim>\<open>_get_param\<close> unpacks what the
  iteration yields. An integer and \<^verbatim>\<open>None\<close> are not iterable; a string unpacks into
  its characters, which must be exactly two.
\<close>

definition unpack_pair :: "pyval \<Rightarrow> error + (pyval \<times> pyval)" where
  "unpack_pair x =
     (case x of
        PNone \<Rightarrow> Inl TypeError
      | PInt i \<Rightarrow> Inl TypeError
      | PStr s \<Rightarrow>
          (case s of
             [a, b] \<Rightarrow> Inr (PStr [a], PStr [b])
           | _ \<Rightarrow>
               if length s < 2
               then Inl (ValueError (''not enough values to unpack (expected 2, got ''
                                     @ str_nat (length s) @ '')''))
               else Inl (ValueError ''too many values to unpack (expected 2)'')))"

text \<open>
  \<^verbatim>\<open>_get_param\<close>: the comprehension runs over \<^verbatim>\<open>self.label_encoder\<close> itself, and
  iterating a dict yields its keys. A tag map that is \<^verbatim>\<open>None\<close> leaves the field of
  the message empty.
\<close>

definition get_param :: "transformer \<Rightarrow> error + LabelTransformParam" where
  "get_param self =
     (case label_encoder self of
        None \<Rightarrow> Inl TypeError
      | Some enc \<Rightarrow>
          (case for_each
                  (\<lambda>x. case unpack_pair x of
                         Inl e \<Rightarrow> Inl e
                       | Inr (k, v) \<Rightarrow> Inr (py_str k, py_str v))
                  (keys enc) of
             Inl e \<Rightarrow> Inl e
           | Inr ps \<Rightarrow>
               Inr \<lparr>pb_label_encoder = dict_of ps,
                    pb_encoder_key_type =
                      (case encoder_key_type self of None \<Rightarrow> [] | Some m \<Rightarrow> entries m),
                    pb_encoder_value_type =
                      (case encoder_value_type self of None \<Rightarrow> [] | Some m \<Rightarrow> entries m)\<rparr>))"

text \<open>\<^verbatim>\<open>export_model\<close>: the dictionary of the two records under their fixed names,
  also kept in \<^verbatim>\<open>self.model_output\<close>.\<close>

definition model_records :: "LabelTransformMeta \<Rightarrow> LabelTransformParam \<Rightarrow> model_output" where
  "model_records meta_obj param_obj =
     [(model_meta_name, MetaMsg meta_obj), (model_param_name, ParamMsg param_obj)]"

definition export_model :: "transformer \<Rightarrow> (error + model_output) \<times> transformer" where
  "export_model self =
     (let meta_obj = get_meta self
      in case get_param self of
           Inl e \<Rightarrow> (Inl e, self)
         | Inr param_obj \<Rightarrow>
             (let result = model_records meta_obj param_obj
              in (Inr result, self\<lparr>model_output := Some result\<rparr>)))"

text \<open>One item of the comprehension in \<^verbatim>\<open>load_model\<close>: the key is parsed by its tag,
  then the value by the value tag recorded under the same key.\<close>

definition load_item :: "numpy \<Rightarrow> tagmap \<Rightarrow> tagmap \<Rightarrow> string \<times> string \<Rightarrow> error + (pyval \<times> pyval)" where
  "load_item np key_type value_type kv =
     (case kv of (k, v) \<Rightarrow>
        (case tag_getitem key_type k of
           Inl e \<Rightarrow> Inl e
         | Inr kt \<Rightarrow>
             (case load_value_to_type np (PStr k) kt of
                Inl e \<Rightarrow> Inl e
              | Inr k' \<Rightarrow>
                  (case tag_getitem value_type k of
                     Inl e \<Rightarrow> Inl e
                   | Inr vt \<Rightarrow>
                       (case load_value_to_type np (PStr v) vt of
                          Inl e \<Rightarrow> Inl e
                        | Inr v' \<Rightarrow> Inr (k', v'))))))"

text \<open>
  \<^verbatim>\<open>load_model(self, model_dict)\<close>. \<^verbatim>\<open>model_dict.get('model')\<close> is \<^verbatim>\<open>None\<close> when
  the key is missing, the first of its values does not exist when it is empty, and a
  missing or wrongly typed message has not the attribute that is read from it. The
  fields are assigned in the order of the source, so that a failure leaves those
  assigned before it.
\<close>

definition load_model ::
  "numpy \<Rightarrow> transformer \<Rightarrow> (string, (string, model_output) dict) dict \<Rightarrow> (error + unit) \<times> transformer" where
  "load_model np self model_dict =
     (case dict_get model_dict ''model'' of
        None \<Rightarrow> (Inl AttributeError, self)
      | Some components \<Rightarrow>
          (case vals components of
             [] \<Rightarrow> (Inl IndexError, self)
           | m # ms \<Rightarrow>
               (case dict_get m model_meta_name of
                  Some (MetaMsg meta_obj) \<Rightarrow>
                    (let s1 = self\<lparr>need_run := pb_need_run meta_obj\<rparr>
                     in case dict_get m model_param_name of
                          Some (ParamMsg param_obj) \<Rightarrow>
                            (let key_type = PbMap (pb_encoder_key_type param_obj);
                                 value_type = PbMap (pb_encoder_value_type param_obj);
                                 s2 = s1\<lparr>encoder_key_type := Some key_type,
                                          encoder_value_type := Some value_type\<rparr>
                             in case for_each (load_item np key_type value_type)
                                       (pb_label_encoder param_obj) of
                                  Inl e \<Rightarrow> (Inl e, s2)
                                | Inr ps \<Rightarrow> (Inr (), s2\<lparr>label_encoder := Some (dict_of ps)\<rparr>))
                        | _ \<Rightarrow> (Inl AttributeError, s1))
                | _ \<Rightarrow> (Inl AttributeError, self))))"

section \<open>Notions of the specification\<close>

text \<open>The recognised type tags: the integer tags, the floating-point tags and the
  text tags.\<close>

definition recognized_tag :: "string \<Rightarrow> bool" where
  "recognized_tag t =
     (t \<in> set [''int'', ''int64'', ''long'', ''float'', ''float64'', ''double'', ''str'', ''_str''])"

text \<open>The model dictionary handed to \<^verbatim>\<open>load_model\<close>: the exported records of one
  component under the key \<^verbatim>\<open>'model'\<close>.\<close>

definition saved_model :: "string \<Rightarrow> model_output \<Rightarrow> (string, (string, model_output) dict) dict" where
  "saved_model component out = [(''model'', [(component, out)])]"

text \<open>The tags a persisted param record makes \<^verbatim>\<open>load_model\<close> read: for every entry
  of its encoder, the key tag and the value tag recorded under the entry's key.\<close>

definition pb_tag :: "(string, string) dict \<Rightarrow> string \<Rightarrow> string" where
  "pb_tag m k = (case tag_getitem (PbMap m) k of Inl e \<Rightarrow> [] | Inr t \<Rightarrow> t)"

definition tags_used :: "LabelTransformParam \<Rightarrow> string list" where
  "tags_used param_obj =
     concat (map (\<lambda>(k, v). [pb_tag (pb_encoder_key_type param_obj) k,
                            pb_tag (pb_encoder_value_type param_obj) k])
               (pb_label_encoder param_obj))"

text \<open>The label values a record carries: the label field of a training record; the
  true label, the predicted label and every key of the detail of a prediction result.\<close>

fun labels_of :: "('a, 's) row_value \<Rightarrow> pyval list" where
  "labels_of (TrainingRecord inst) = [label inst]"
| "labels_of (PredictionResult p) = true_label p # predict_label p # keys (predict_detail p)"

text \<open>The label population of a dataset, and the assumption of the specification that
  all records of one dataset share the same kind.\<close>

definition dataset_labels :: "('a, 's) table \<Rightarrow> pyval list" where
  "dataset_labels data = concat (map (\<lambda>(k, v). labels_of v) (rows data))"

definition all_training :: "('a, 's) table \<Rightarrow> bool" where
  "all_training data = list_all (\<lambda>(k, v). isinstance_Instance v) (rows data)"

definition all_prediction :: "('a, 's) table \<Rightarrow> bool" where
  "all_prediction data = list_all (\<lambda>(k, v). \<not> isinstance_Instance v) (rows data)"

definition uniform_kind :: "('a, 's) table \<Rightarrow> bool" where
  "uniform_kind data = (all_training data \<or> all_prediction data)"

text \<open>
  The per-record rewrite in the words of the specification: a training record gets
  its label replaced by the image of the label under the map; a prediction result
  gets the true and the predicted label replaced by their images and its detail
  rebuilt with every key replaced by its image, the scores as they are. There is no
  rewritten record when the map lacks one of the labels. A dataset is rewritten by a
  map when every row keeps its key, holds the rewritten record, and the schema is
  carried over.
\<close>

fun rewrite_labels :: "(pyval, pyval) dict \<Rightarrow> ('a, 's) row_value \<Rightarrow> ('a, 's) row_value option" where
  "rewrite_labels m (TrainingRecord inst) =
     (case dict_get m (label inst) of
        None \<Rightarrow> None
      | Some l \<Rightarrow> Some (TrainingRecord (inst\<lparr>label := l\<rparr>)))"
| "rewrite_labels m (PredictionResult p) =
     (if list_all (\<lambda>l. l \<in> set (keys m)) (true_label p # predict_label p # keys (predict_detail p))
      then Some (PredictionResult
                  \<lparr>true_label = the (dict_get m (true_label p)),
                   predict_label = the (dict_get m (predict_label p)),
                   predict_score = predict_score p,
                   predict_detail = dict_of (map (\<lambda>(l, score). (the (dict_get m l), score))
                                               (predict_detail p))\<rparr>)
      else None)"

definition rewritten_by :: "(pyval, pyval) dict \<Rightarrow> ('a, 's) table \<Rightarrow> ('a, 's) table \<Rightarrow> bool" where
  "rewritten_by m data out =
     (list_all2 (\<lambda>(k, v) (k', v'). k' = k \<and> rewrite_labels m v = Some v') (rows data) (rows out)
      \<and> schema out = schema data)"

section \<open>Example data\<close>

definition fresh :: transformer where
  "fresh = init_model None None True"

definition bool_param :: LabelTransformParam where
  "bool_param =
     \<lparr>pb_label_encoder = [(''True'', ''1'')],
      pb_encoder_key_type = [(''True'', ''bool'')],
      pb_encoder_value_type = [(''True'', ''int'')]\<rparr>"

text \<open>The worked example of the specification. Scores are opaque, so the examples
  write them as text.\<close>

definition pets_encoder :: "(pyval, pyval) dict" where
  "pets_encoder = [(PStr ''cat'', PInt 0), (PStr ''dog'', PInt 1), (PStr ''fish'', PInt 2)]"

definition pets_prediction :: "string predict_result" where
  "pets_prediction =
     \<lparr>true_label = PInt 2, predict_label = PInt 0, predict_score = ''0.9'',
      predict_detail = [(PInt 0, ''0.9''), (PInt 1, ''0.05''), (PInt 2, ''0.05'')]\<rparr>"

definition stray_prediction :: "string predict_result" where
  "stray_prediction =
     \<lparr>true_label = PInt 2, predict_label = PInt 0, predict_score = ''0.9'',
      predict_detail = [(PInt 0, ''0.9''), (PInt 7, ''0.1'')]\<rparr>"

definition training_row :: "string \<Rightarrow> pyval \<Rightarrow> string \<times> (unit, string) row_value" where
  "training_row k l = (k, TrainingRecord \<lparr>label = l, features = ()\<rparr>)"

definition pets :: "(unit, string) table" where
  "pets = \<lparr>rows = [training_row ''r1'' (PStr ''dog''), training_row ''r2'' (PStr ''fish''),
                    training_row ''r3'' (PStr ''cat''), training_row ''r4'' (PStr ''dog'')],
           schema = [''y'']\<rparr>"


definition ages :: "(unit, string) table" where
  "ages = \<lparr>rows = [training_row ''r1'' (PInt 5), training_row ''r2'' (PInt 3),
                    training_row ''r3'' (PInt 5)],
           schema = [''y'']\<rparr>"

definition raw_predictions :: "(unit, string) table" where
  "raw_predictions =
     \<lparr>rows = [(''r1'', PredictionResult
                 \<lparr>true_label = PStr ''dog'', predict_label = PStr ''cat'', predict_score = ''0.9'',
                  predict_detail = [(PStr ''cat'', ''0.9''), (PStr ''dog'', ''0.1'')]\<rparr>)],
      schema = [''predict_result'']\<rparr>"

definition fitted_predictions :: "(unit, string) table" where
  "fitted_predictions =
     \<lparr>rows = [(''r1'', PredictionResult
                 \<lparr>true_label = PInt 1, predict_label = PInt 0, predict_score = ''0.9'',
                  predict_detail = [(PInt 0, ''0.9''), (PInt 1, ''0.1'')]\<rparr>)],
      schema = [''predict_result'']\<rparr>"

definition encoded_predictions :: "(unit, string) table" where
  "encoded_predictions =
     \<lparr>rows = [(''r1'', PredictionResult pets_prediction)], schema = [''predict_result'']\<rparr>"

definition trained :: transformer where
  "trained = init_model (Some pets_encoder) None True"

definition decoded_predictions :: "(unit, string) table" where
  "decoded_predictions =
     \<lparr>rows = [(''r1'', PredictionResult
                 \<lparr>true_label = PStr ''fish'', predict_label = PStr ''cat'', predict_score = ''0.9'',
                  predict_detail = [(PStr ''cat'', ''0.9''), (PStr ''dog'', ''0.05''),
                                    (PStr ''fish'', ''0.05'')]\<rparr>)],
      schema = [''predict_result'']\<rparr>"

definition fitted_pets :: "(unit, string) table" where
  "fitted_pets =
     \<lparr>rows = [training_row ''r1'' (PInt 1), training_row ''r2'' (PInt 2),
              training_row ''r3'' (PInt 0), training_row ''r4'' (PInt 1)],
      schema = [''y'']\<rparr>"

section \<open>Facts about dictionaries and comprehensions\<close>

lemma for_each_fails:
  "x \<in> set xs \<Longrightarrow> f x = Inl e \<Longrightarrow> \<exists>e'. for_each f xs = Inl e'"
  by (induction xs) (auto split: sum.splits)

lemma dict_get_None: "dict_get d k = None \<longleftrightarrow> k \<notin> set (keys d)"
  by (simp add: dict_get_def keys_def map_of_eq_None_iff)

lemma getitem_missing: "k \<notin> set (keys d) \<Longrightarrow> getitem d k = Inl (KeyError k)"
  using dict_get_None[of d k] by (simp add: getitem_def)

lemma getitem_present: "k \<in> set (keys d) \<Longrightarrow> \<exists>v. getitem d k = Inr v \<and> dict_get d k = Some v"
  by (cases "dict_get d k") (auto simp: getitem_def dict_get_None)

lemma getitem_Inr: "getitem d k = Inr v \<longleftrightarrow> dict_get d k = Some v"
  by (simp add: getitem_def split: option.splits)

lemma for_each_all:
  "(\<And>x. x \<in> set xs \<Longrightarrow> f x = Inr (g x)) \<Longrightarrow> for_each f xs = Inr (map g xs)"
  by (induction xs) auto

lemma for_each_Inr:
  "for_each f xs = Inr ys \<Longrightarrow> list_all2 (\<lambda>x y. f x = Inr y) xs ys"
  by (induction xs arbitrary: ys) (auto split: sum.splits)

lemma dict_set_fresh: "k \<notin> set (map fst d) \<Longrightarrow> dict_set d k v = d @ [(k, v)]"
  by (induction d) auto

lemma dict_set_keys: "set (map fst (dict_set d k v)) = insert k (set (map fst d))"
proof (induction d)
  case Nil
  show ?case by simp
next
  case (Cons a d)
  obtain k' v' where a: "a = (k', v')" by (cases a)
  show ?case using Cons.IH by (cases "k' = k") (simp_all add: a insert_commute)
qed

lemma dict_set_subset: "set (dict_set d k v) \<subseteq> insert (k, v) (set d)"
  by (induction d) (auto split: if_splits)

lemma dict_set_distinct: "distinct (map fst d) \<Longrightarrow> distinct (map fst (dict_set d k v))"
proof (induction d)
  case Nil
  show ?case by simp
next
  case (Cons a d)
  obtain k' v' where a: "a = (k', v')" by (cases a)
  from Cons.prems have "k' \<notin> set (map fst d)" "distinct (map fst d)" by (simp_all add: a)
  then show ?case using Cons.IH dict_set_keys[of d k v]
    by (cases "k' = k") (simp_all add: a del: set_map)
qed

lemma foldl_dict_set_fresh:
  "distinct (map fst (d @ ps)) \<Longrightarrow> foldl (\<lambda>d (k, v). dict_set d k v) d ps = d @ ps"
proof (induction ps arbitrary: d)
  case Nil
  then show ?case by simp
next
  case (Cons p ps)
  obtain k v where p: "p = (k, v)" by (cases p)
  from Cons.prems have "k \<notin> set (map fst d)" by (auto simp: p)
  then have "dict_set d k v = d @ [(k, v)]" by (rule dict_set_fresh)
  moreover from Cons.prems have "distinct (map fst ((d @ [(k, v)]) @ ps))" by (simp add: p)
  ultimately show ?case using Cons.IH[of "d @ [(k, v)]"] by (simp add: p)
qed

lemma dict_of_distinct: "distinct (map fst ps) \<Longrightarrow> dict_of ps = ps"
  using foldl_dict_set_fresh[of "[]" ps] by (simp add: dict_of_def)

lemma foldl_dict_set_keys:
  "set (map fst (foldl (\<lambda>d (k, v). dict_set d k v) d ps)) = set (map fst d) \<union> set (map fst ps)"
proof (induction ps arbitrary: d)
  case Nil
  then show ?case by simp
next
  case (Cons p ps)
  obtain k v where p: "p = (k, v)" by (cases p)
  show ?case using Cons.IH[of "dict_set d k v"] dict_set_keys[of d k v] by (simp add: p)
qed

lemma foldl_dict_set_subset:
  "set (foldl (\<lambda>d (k, v). dict_set d k v) d ps) \<subseteq> set d \<union> set ps"
proof (induction ps arbitrary: d)
  case Nil
  then show ?case by simp
next
  case (Cons p ps)
  obtain k v where p: "p = (k, v)" by (cases p)
  have "set (foldl (\<lambda>d (k, v). dict_set d k v) (dict_set d k v) ps) \<subseteq> set (dict_set d k v) \<union> set ps"
    by (rule Cons.IH)
  also have "\<dots> \<subseteq> set d \<union> set (p # ps)"
    using dict_set_subset[of d k v] by (auto simp: p)
  finally show ?case by (simp add: p)
qed

lemma foldl_dict_set_distinct:
  "distinct (map fst d) \<Longrightarrow> distinct (map fst (foldl (\<lambda>d (k, v). dict_set d k v) d ps))"
proof (induction ps arbitrary: d)
  case Nil
  then show ?case by simp
next
  case (Cons p ps)
  obtain k v where p: "p = (k, v)" by (cases p)
  show ?case using Cons.IH[OF dict_set_distinct[OF Cons.prems, of k v]] by (simp add: p)
qed

lemma dict_of_keys: "set (keys (dict_of ps)) = set (map fst ps)"
  using foldl_dict_set_keys[of "[]" ps] by (simp add: dict_of_def keys_def)

lemma dict_of_subset: "set (dict_of ps) \<subseteq> set ps"
  using foldl_dict_set_subset[of "[]" ps] by (simp add: dict_of_def)

lemma dict_of_is_dict: "distinct (keys (dict_of ps))"
  using foldl_dict_set_distinct[of "[]" ps] by (simp add: dict_of_def keys_def)

section \<open>The typed-parse rule and unknown tags\<close>

lemma load_unknown:
  "\<not> recognized_tag t \<Longrightarrow>
   load_value_to_type np (PStr s) t = Inl (ValueError (''unknown value type: '' @ t))"
  by (simp add: load_value_to_type_def recognized_tag_def)

lemma load_item_unknown:
  assumes "\<not> recognized_tag t"
    and "t = pb_tag kt k \<or> t = pb_tag vt k"
  shows "\<exists>e. load_item np (PbMap kt) (PbMap vt) (k, v) = Inl e"
  using assms
  by (auto simp: load_item_def load_unknown pb_tag_def split: sum.splits option.splits)

lemma load_model_unknown:
  assumes "\<not> recognized_tag t" and "t \<in> set (tags_used param_obj)"
  shows "\<exists>e s'. load_model np self (saved_model c (model_records meta_obj param_obj)) = (Inl e, s')
           \<and> label_encoder s' = label_encoder self"
proof -
  let ?f = "load_item np (PbMap (pb_encoder_key_type param_obj))
              (PbMap (pb_encoder_value_type param_obj))"
  from assms(2) obtain k v where kv: "(k, v) \<in> set (pb_label_encoder param_obj)"
    and t: "t = pb_tag (pb_encoder_key_type param_obj) k
          \<or> t = pb_tag (pb_encoder_value_type param_obj) k"
    unfolding tags_used_def by auto
  from load_item_unknown[OF assms(1) t] obtain e where fe: "?f (k, v) = Inl e"
    by blast
  have "\<exists>e'. for_each ?f (pb_label_encoder param_obj) = Inl e'"
    using for_each_fails[of "(k, v)" "pb_label_encoder param_obj" ?f e] kv fe by simp
  then show ?thesis
    by (auto simp: load_model_def saved_model_def model_records_def dict_get_def vals_def
        model_meta_name_def model_param_name_def)
qed

text \<open>
  Claim C8. A persisted string whose tag is outside the recognised set makes
  \<open>load_value_to_type\<close> raise \<^verbatim>\<open>ValueError\<close>, for every behaviour of numpy; and
  \<open>load_model\<close>, given a param record that makes it read such a tag, raises and leaves
  the encoder of the component as it was.
\<close>

theorem unknown_tag_is_fatal:
  assumes "\<not> recognized_tag t"
  shows "load_value_to_type np (PStr s) t = Inl (ValueError (''unknown value type: '' @ t)) \<and>
         (t \<in> set (tags_used param_obj) \<longrightarrow>
            (\<exists>e s'. load_model np self (saved_model c (model_records meta_obj param_obj)) = (Inl e, s')
               \<and> label_encoder s' = label_encoder self))"
  using load_unknown[OF assms] load_model_unknown[OF assms] by blast

theorem unknown_tag_is_fatal_witness:
  "\<not> recognized_tag ''bool'' \<and> ''bool'' \<in> set (tags_used bool_param) \<and>
   load_value_to_type np_int_alias (PStr ''True'') ''bool''
     = Inl (ValueError ''unknown value type: bool'') \<and>
   fst (load_model np_int_alias fresh (saved_model ''label_transform_0''
          (model_records \<lparr>pb_need_run = True\<rparr> bool_param)))
     = Inl (ValueError ''unknown value type: bool'') \<and>
   label_encoder (snd (load_model np_int_alias fresh (saved_model ''label_transform_0''
          (model_records \<lparr>pb_need_run = True\<rparr> bool_param)))) = label_encoder fresh"
proof -
  have h: "\<not> recognized_tag ''bool''"
    by (simp add: recognized_tag_def)
  have u: "''bool'' \<in> set (tags_used bool_param)"
    by (simp add: tags_used_def bool_param_def pb_tag_def dict_get_def)
  from unknown_tag_is_fatal[OF h, of np_int_alias "''True''" bool_param fresh
      "''label_transform_0''" "\<lparr>pb_need_run = True\<rparr>"] u
  obtain e s' where
    l: "load_value_to_type np_int_alias (PStr ''True'') ''bool''
          = Inl (ValueError ''unknown value type: bool'')"
    and m: "load_model np_int_alias fresh (saved_model ''label_transform_0''
              (model_records \<lparr>pb_need_run = True\<rparr> bool_param)) = (Inl e, s')"
    and k: "label_encoder s' = label_encoder fresh"
    by auto
  have "fst (load_model np_int_alias fresh (saved_model ''label_transform_0''
          (model_records \<lparr>pb_need_run = True\<rparr> bool_param)))
     = Inl (ValueError ''unknown value type: bool'')"
    by (simp add: load_model_def saved_model_def model_records_def dict_get_def vals_def
        model_meta_name_def model_param_name_def bool_param_def load_item_def
        load_value_to_type_def)
  with h u l m k show ?thesis by simp
qed

text \<open>
  Claim C10. Whatever the tag, recognised or not, and whatever numpy does,
  \<open>load_value_to_type\<close> returns \<^verbatim>\<open>None\<close> for the value \<^verbatim>\<open>None\<close> and raises nothing.
\<close>

theorem none_survives_any_tag: "load_value_to_type np PNone t = Inr PNone"
  by (simp add: load_value_to_type_def)

section \<open>The transform engine\<close>

text \<open>
  Claim C7. As long as the component has no encoder, \<open>transform\<close> raises
  \<^verbatim>\<open>ValueError\<close> for every dataset and returns none.
\<close>

theorem transform_without_encoder:
  "label_encoder self = None \<Longrightarrow>
   transform self data = Inl (ValueError ''Input Label Encoder is None. Label Transform aborted.'')"
  by (simp add: transform_def)

theorem transform_without_encoder_witness:
  "label_encoder fresh = None \<and>
   transform fresh \<lparr>rows = [(''r1'', TrainingRecord \<lparr>label = PInt 1, features = ()\<rparr>)],
                    schema = [''y'']\<rparr>
     = (Inl (ValueError ''Input Label Encoder is None. Label Transform aborted.'')
          :: error + (unit, int) table)"
proof -
  have h: "label_encoder fresh = None"
    by (simp add: fresh_def init_model_def)
  from transform_without_encoder[OF h] h show ?thesis by simp
qed

lemma detail_unmapped:
  "\<exists>l \<in> set (keys d). l \<notin> set (keys m) \<Longrightarrow>
   \<exists>l' \<in> set (keys d). l' \<notin> set (keys m) \<and>
     for_each (\<lambda>(l, score). case getitem m l of Inl e \<Rightarrow> Inl e | Inr l' \<Rightarrow> Inr (l', score)) d
       = Inl (KeyError l')"
proof (induction d)
  case Nil
  then show ?case by (simp add: keys_def)
next
  case (Cons a d)
  obtain l s where a: "a = (l, s)" by (cases a)
  show ?case
  proof (cases "l \<in> set (keys m)")
    case False
    then show ?thesis by (auto simp: a keys_def getitem_missing)
  next
    case True
    then obtain v where v: "getitem m l = Inr v" using getitem_present by blast
    from True Cons.prems have "\<exists>l \<in> set (keys d). l \<notin> set (keys m)"
      by (auto simp: a keys_def)
    from Cons.IH[OF this] obtain l' where l': "l' \<in> set (keys d)" "l' \<notin> set (keys m)"
      and f: "for_each (\<lambda>(l, score). case getitem m l of Inl e \<Rightarrow> Inl e | Inr l' \<Rightarrow> Inr (l', score)) d
                = Inl (KeyError l')"
      by blast
    from l' have "l' \<in> set (keys (a # d))" by (simp add: keys_def)
    moreover have "for_each (\<lambda>(l, score). case getitem m l of Inl e \<Rightarrow> Inl e | Inr l' \<Rightarrow> Inr (l', score)) (a # d)
                = Inl (KeyError l')"
      by (simp add: a v f)
    ultimately show ?thesis using l'(2) by blast
  qed
qed

text \<open>
  Claim C6. When a record carries a label that is not a key of the map in use, the
  per-record rewrite of its kind raises \<^verbatim>\<open>KeyError\<close> for a label of the record that
  the map lacks. The result is the exception alone: no record is produced and no
  default takes the place of the missing entry.
\<close>

theorem unmapped_label_raises:
  assumes "l \<in> set (labels_of v)" and "l \<notin> set (keys m)"
  shows "\<exists>l' \<in> set (labels_of v). l' \<notin> set (keys m) \<and>
           (case v of
              TrainingRecord inst \<Rightarrow> replace_instance_label v m
            | PredictionResult p \<Rightarrow> replace_predict_label v m) = Inl (KeyError l')"
proof (cases v)
  case (TrainingRecord inst)
  with assms show ?thesis
    by (simp add: replace_instance_label_def getitem_missing)
next
  case (PredictionResult p)
  show ?thesis
  proof (cases "true_label p \<in> set (keys m)")
    case False
    then show ?thesis
      by (simp add: PredictionResult replace_predict_label_def getitem_missing)
  next
    case t: True
    then obtain t' where t': "getitem m (true_label p) = Inr t'" using getitem_present by blast
    show ?thesis
    proof (cases "predict_label p \<in> set (keys m)")
      case False
      then show ?thesis
        by (simp add: PredictionResult replace_predict_label_def getitem_missing t')
    next
      case q: True
      then obtain q' where q': "getitem m (predict_label p) = Inr q'"
        using getitem_present by blast
      from assms t q have "\<exists>l \<in> set (keys (predict_detail p)). l \<notin> set (keys m)"
        by (auto simp: PredictionResult)
      from detail_unmapped[OF this] show ?thesis
        by (auto simp: PredictionResult replace_predict_label_def t' q')
    qed
  qed
qed


theorem unmapped_label_raises_witness:
  "PInt 7 \<in> set (labels_of (PredictionResult stray_prediction :: (unit, string) row_value)) \<and>
   PInt 7 \<notin> set (keys (inverse_encoder pets_encoder)) \<and>
   replace_predict_label (PredictionResult stray_prediction :: (unit, string) row_value)
     (inverse_encoder pets_encoder) = Inl (KeyError (PInt 7))"
proof -
  let ?v = "PredictionResult stray_prediction :: (unit, string) row_value"
  have k: "keys (inverse_encoder pets_encoder) = [PInt 0, PInt 1, PInt 2]"
    by (simp add: inverse_encoder_def pets_encoder_def keys_def vals_def dict_of_def)
  have ls: "labels_of ?v = [PInt 2, PInt 0, PInt 0, PInt 7]"
    by (simp add: stray_prediction_def keys_def)
  have a: "PInt 7 \<in> set (labels_of ?v)"
    unfolding ls by simp
  have b: "PInt 7 \<notin> set (keys (inverse_encoder pets_encoder))"
    unfolding k by simp
  from unmapped_label_raises[OF a b] obtain l' where
    l: "l' \<in> set (labels_of ?v)" "l' \<notin> set (keys (inverse_encoder pets_encoder))"
    and r: "replace_predict_label ?v (inverse_encoder pets_encoder) = Inl (KeyError l')"
    by auto
  from l have "l' = PInt 7"
    unfolding ls k by auto
  with r a b show ?thesis by simp
qed

lemma remap_detail:
  assumes "set (keys d) \<subseteq> set (keys m)"
  shows "for_each (\<lambda>(l, score). case getitem m l of Inl e \<Rightarrow> Inl e | Inr l' \<Rightarrow> Inr (l', score)) d
           = Inr (map (\<lambda>(l, score). (the (dict_get m l), score)) d)"
proof (rule for_each_all)
  fix x assume x: "x \<in> set d"
  obtain l s where ls: "x = (l, s)" by (cases x)
  from x have "l \<in> set (keys d)" by (force simp: ls keys_def)
  with assms have "l \<in> set (keys m)" by blast
  then obtain v where "getitem m l = Inr v" "dict_get m l = Some v"
    using getitem_present by blast
  then show "(case x of (l, score) \<Rightarrow> case getitem m l of Inl e \<Rightarrow> Inl e | Inr l' \<Rightarrow> Inr (l', score))
             = Inr (case x of (l, score) \<Rightarrow> (the (dict_get m l), score))"
    by (simp add: ls)
qed




section \<open>Discovery of the encoder\<close>

subsection \<open>Sorting the labels\<close>

lemma is_int_PInt: "is_int x \<Longrightarrow> PInt (int_of x) = x"
  by (cases x) auto

lemma is_str_PStr: "is_str x \<Longrightarrow> PStr (str_of x) = x"
  by (cases x) auto

lemma map_PInt_int_of: "list_all is_int xs \<Longrightarrow> map PInt (map int_of xs) = xs"
  by (induction xs) (auto simp: is_int_PInt)

lemma map_PStr_str_of: "list_all is_str xs \<Longrightarrow> map PStr (map str_of xs) = xs"
  by (induction xs) (auto simp: is_str_PStr)

lemma sorted_py_set:
  assumes "sorted_py xs = Inr ys"
  shows "set ys = set xs"
proof (cases "list_all is_int xs")
  case True
  with assms have ys: "ys = map PInt (sort (map int_of xs))"
    by (simp add: sorted_py_def)
  have "set ys = set (map PInt (map int_of xs))"
    unfolding ys by (simp only: set_map set_sort)
  also have "\<dots> = set xs"
    by (simp only: map_PInt_int_of[OF True])
  finally show ?thesis .
next
  case False
  show ?thesis
  proof (cases "list_all is_str xs")
    case True
    with False assms have ys: "ys = map PStr (sort (map str_of xs))"
      by (simp add: sorted_py_def)
    have "set ys = set (map PStr (map str_of xs))"
      unfolding ys by (simp only: set_map set_sort)
    also have "\<dots> = set xs"
      by (simp only: map_PStr_str_of[OF True])
    finally show ?thesis .
  next
    case s: False
    with False assms show ?thesis
      by (auto simp: sorted_py_def split: if_splits)
  qed
qed

lemma sorted_py_length:
  "sorted_py xs = Inr ys \<Longrightarrow> length ys = length xs"
  by (auto simp: sorted_py_def split: if_splits)

lemma sorted_py_distinct:
  assumes "sorted_py xs = Inr ys" and "distinct xs"
  shows "distinct ys"
  using assms sorted_py_set[OF assms(1)] sorted_py_length[OF assms(1)]
  by (metis card_distinct distinct_card)

lemma sorted_py_same_type:
  assumes "sorted_py xs = Inr ys" and "x \<in> set ys" and "y \<in> set ys"
  shows "type_name x = type_name y"
proof -
  have i: "type_name z = ''int''" if "is_int z" for z using that by (cases z) auto
  have s: "type_name z = ''str''" if "is_str z" for z using that by (cases z) auto
  from assms(2,3) sorted_py_set[OF assms(1)] have xy: "x \<in> set xs" "y \<in> set xs" by auto
  show ?thesis
  proof (cases "list_all is_int xs")
    case True
    with xy show ?thesis by (simp add: list_all_iff i)
  next
    case False
    show ?thesis
    proof (cases "list_all is_str xs")
      case True
      with xy show ?thesis by (simp add: list_all_iff s)
    next
      case ns: False
      with False assms(1) have "length xs \<le> 1" "ys = xs"
        by (auto simp: sorted_py_def split: if_splits)
      with xy show ?thesis by (cases xs) auto
    qed
  qed
qed

lemma sort_distinct_set:
  fixes xs ys :: "'a::linorder list"
  assumes "distinct xs" "distinct ys" "set xs = set ys"
  shows "sort xs = sort ys"
  by (rule sorted_distinct_set_unique) (use assms in simp_all)

lemma int_of_inj: "list_all is_int zs \<Longrightarrow> inj_on int_of (set zs)"
  by (rule inj_onI) (metis is_int_PInt list_all_iff)

lemma str_of_inj: "list_all is_str zs \<Longrightarrow> inj_on str_of (set zs)"
  by (rule inj_onI) (metis is_str_PStr list_all_iff)

lemma sorted_py_order_free:
  assumes "distinct xs" "distinct ys" "set xs = set ys"
  shows "sorted_py xs = sorted_py ys"
proof -
  have len: "length xs = length ys"
    using assms by (metis distinct_card)
  have ai: "list_all is_int xs = list_all is_int ys"
    and as: "list_all is_str xs = list_all is_str ys"
    using assms(3) by (simp_all add: list_all_iff)
  show ?thesis
  proof (cases "list_all is_int xs")
    case True
    with ai have ty: "list_all is_int ys" by simp
    have "sort (map int_of xs) = sort (map int_of ys)"
      by (rule sort_distinct_set)
         (simp_all add: distinct_map assms int_of_inj[OF True] int_of_inj[OF ty])
    with True ty show ?thesis by (simp add: sorted_py_def)
  next
    case False
    with ai have ny: "\<not> list_all is_int ys" by simp
    show ?thesis
    proof (cases "list_all is_str xs")
      case True
      with as have ty: "list_all is_str ys" by simp
      have "sort (map str_of xs) = sort (map str_of ys)"
        by (rule sort_distinct_set)
           (simp_all add: distinct_map assms str_of_inj[OF True] str_of_inj[OF ty])
      with True ty False ny show ?thesis by (simp add: sorted_py_def)
    next
      case ns: False
      with as have nsy: "\<not> list_all is_str ys" by simp
      show ?thesis
      proof (cases "length xs \<le> 1")
        case True
        with len assms(3) have "xs = ys"
          by (cases xs; cases ys) auto
        then show ?thesis by simp
      next
        case l: False
        with len False ny ns nsy show ?thesis by (simp add: sorted_py_def)
      qed
    qed
  qed
qed


subsection \<open>The helpers of discovery\<close>

lemma count_labels_keys:
  "count_labels rs d = Inr d' \<Longrightarrow>
   set (keys d') = set (keys d) \<union> set (concat (map (\<lambda>(k, v). labels_of v) rs)) \<and>
   (distinct (keys d) \<longrightarrow> distinct (keys d'))"
proof (induction rs arbitrary: d)
  case Nil
  then show ?case by simp
next
  case (Cons r rs)
  obtain k v where r: "r = (k, v)" by (cases r)
  from Cons.prems obtain inst where v: "v = TrainingRecord inst"
    by (cases v) (simp_all add: r)
  let ?d = "dict_set d (label inst) (case dict_get d (label inst) of None \<Rightarrow> 1 | Some c \<Rightarrow> c + 1)"
  from Cons.prems have "count_labels rs ?d = Inr d'" by (simp add: r v)
  from Cons.IH[OF this] show ?case
    using dict_set_keys[of d "label inst"] dict_set_distinct[of d "label inst"]
    by (simp add: r v keys_def del: set_map)
qed

lemma count_labels_total:
  "list_all (\<lambda>(k, v). isinstance_Instance v) rs \<Longrightarrow> \<exists>d'. count_labels rs d = Inr d'"
proof (induction rs arbitrary: d)
  case Nil
  then show ?case by simp
next
  case (Cons r rs)
  obtain k v where r: "r = (k, v)" by (cases r)
  from Cons.prems obtain inst where v: "v = TrainingRecord inst"
    by (cases v) (simp_all add: r)
  from Cons show ?case by (simp add: r v)
qed

lemma set_add_set: "set (set_add s x) = insert x (set s)"
  by (auto simp: set_add_def)

lemma set_add_distinct: "distinct s \<Longrightarrow> distinct (set_add s x)"
  by (simp add: set_add_def)

lemma foldl_set_add:
  "set (foldl set_add s xs) = set s \<union> set xs \<and> (distinct s \<longrightarrow> distinct (foldl set_add s xs))"
  by (induction xs arbitrary: s) (auto simp: set_add_set set_add_distinct)

lemma collect_labels_set:
  "collect_labels rs s = Inr s' \<Longrightarrow>
   set s' = set s \<union> set (concat (map (\<lambda>(k, v). labels_of v) rs)) \<and>
   (distinct s \<longrightarrow> distinct s')"
proof (induction rs arbitrary: s)
  case Nil
  then show ?case by simp
next
  case (Cons r rs)
  obtain k v where r: "r = (k, v)" by (cases r)
  from Cons.prems obtain p where v: "v = PredictionResult p"
    by (cases v) (simp_all add: r)
  let ?s = "foldl set_add (set_add (set_add s (true_label p)) (predict_label p)) (keys (predict_detail p))"
  from Cons.prems have "collect_labels rs ?s = Inr s'" by (simp add: r v)
  from Cons.IH[OF this] show ?case
    using foldl_set_add[of "set_add (set_add s (true_label p)) (predict_label p)" "keys (predict_detail p)"]
    by (auto simp: r v set_add_set set_add_distinct)
qed

lemma collect_labels_total:
  "list_all (\<lambda>(k, v). \<not> isinstance_Instance v) rs \<Longrightarrow> \<exists>s'. collect_labels rs s = Inr s'"
proof (induction rs arbitrary: s)
  case Nil
  then show ?case by simp
next
  case (Cons r rs)
  obtain k v where r: "r = (k, v)" by (cases r)
  from Cons.prems obtain p where v: "v = PredictionResult p"
    by (cases v) (simp_all add: r)
  from Cons show ?case by (simp add: r v)
qed

text \<open>Discovery sorts a list without repetitions of the labels of the dataset.\<close>

lemma discover_labels_Inr:
  assumes "discover_labels data = Inr labels"
  shows "\<exists>L. distinct L \<and> set L = set (dataset_labels data) \<and> sorted_py L = Inr labels"
proof -
  from assms obtain k v where f: "first data = Inr (k, v)"
    by (cases "first data") (auto simp: discover_labels_def)
  show ?thesis
  proof (cases "isinstance_Instance v")
    case True
    with assms f obtain lc where lc: "get_label_count data = Inr lc" "sorted_py (keys lc) = Inr labels"
      by (cases "get_label_count data") (auto simp: discover_labels_def)
    from count_labels_keys[OF lc(1)[unfolded get_label_count_def]]
    have "distinct (keys lc)" "set (keys lc) = set (dataset_labels data)"
      by (simp_all add: keys_def dataset_labels_def)
    with lc(2) show ?thesis by blast
  next
    case False
    with assms f obtain s where s: "get_predict_result_labels data = Inr s" "sorted_py s = Inr labels"
      by (cases "get_predict_result_labels data") (auto simp: discover_labels_def)
    from collect_labels_set[OF s(1)[unfolded get_predict_result_labels_def]]
    have "distinct s" "set s = set (dataset_labels data)"
      by (simp_all add: dataset_labels_def)
    with s(2) show ?thesis by blast
  qed
qed

lemma discover_labels_uniform:
  assumes "uniform_kind data" and "rows data \<noteq> []"
  shows "\<exists>L. distinct L \<and> set L = set (dataset_labels data) \<and> discover_labels data = sorted_py L"
proof -
  from assms(2) obtain k v rs where rs: "rows data = (k, v) # rs"
    by (cases "rows data") auto
  then have f: "first data = Inr (k, v)" by (simp add: first_def)
  show ?thesis
  proof (cases "isinstance_Instance v")
    case True
    with assms(1) rs have "all_training data"
      by (auto simp: uniform_kind_def all_prediction_def all_training_def)
    then obtain lc where lc: "get_label_count data = Inr lc"
      using count_labels_total unfolding all_training_def get_label_count_def by blast
    from count_labels_keys[OF lc[unfolded get_label_count_def]]
    have "distinct (keys lc)" "set (keys lc) = set (dataset_labels data)"
      by (simp_all add: keys_def dataset_labels_def)
    moreover have "discover_labels data = sorted_py (keys lc)"
      by (simp add: discover_labels_def f True lc)
    ultimately show ?thesis by blast
  next
    case False
    with assms(1) rs have "all_prediction data"
      by (auto simp: uniform_kind_def all_prediction_def all_training_def)
    then obtain s where s: "get_predict_result_labels data = Inr s"
      using collect_labels_total unfolding all_prediction_def get_predict_result_labels_def by blast
    from collect_labels_set[OF s[unfolded get_predict_result_labels_def]]
    have "distinct s" "set s = set (dataset_labels data)"
      by (simp_all add: dataset_labels_def)
    moreover have "discover_labels data = sorted_py s"
      by (simp add: discover_labels_def f False s)
    ultimately show ?thesis by blast
  qed
qed

lemma uniform_kind_empty:
  assumes "uniform_kind data"
  shows "rows data = [] \<longleftrightarrow> set (dataset_labels data) = {}"
proof (cases "rows data")
  case Nil
  then show ?thesis by (simp add: dataset_labels_def)
next
  case (Cons r rs)
  obtain k v where r: "r = (k, v)" by (cases r)
  have "labels_of v \<noteq> []" by (cases v) auto
  with Cons show ?thesis by (simp add: dataset_labels_def r)
qed





subsection \<open>Retyping the keys\<close>

lemma load_own_type:
  assumes "is_int k \<longrightarrow> np ''int'' k = Inr k"
  shows "load_value_to_type np k (type_name k) = Inr k"
  using assms by (cases k) (simp_all add: load_value_to_type_def)

lemma dict_get_dict_of:
  "dict_get (dict_of ps) k = Some v \<Longrightarrow> (k, v) \<in> set ps"
  using dict_of_subset[of ps] by (auto simp: dict_get_def dest: map_of_SomeD)

lemma own_tag_lookup:
  assumes "k \<in> set ks"
    and "\<forall>k' \<in> set ks. py_str k' = py_str k \<longrightarrow> type_name k' = type_name k"
  shows "tag_getitem (PyDict (dict_of (map (\<lambda>k. (py_str k, type_name k)) ks))) (py_str k)
           = Inr (type_name k)"
proof -
  let ?ps = "map (\<lambda>k. (py_str k, type_name k)) ks"
  from assms(1) have "py_str k \<in> set (keys (dict_of ?ps))"
    by (simp add: dict_of_keys image_image del: set_map) force
  then obtain t where t: "dict_get (dict_of ?ps) (py_str k) = Some t"
    using dict_get_None[of "dict_of ?ps" "py_str k"] by (cases "dict_get (dict_of ?ps) (py_str k)") auto
  from dict_get_dict_of[OF t] obtain k' where "k' \<in> set ks" "py_str k' = py_str k" "t = type_name k'"
    by auto
  with assms(2) have "t = type_name k" by simp
  with t show ?thesis by simp
qed

lemma retype_keys_own:
  assumes np: "\<forall>k \<in> set (keys enc). is_int k \<longrightarrow> np ''int'' k = Inr k"
    and same: "\<forall>k \<in> set (keys enc). \<forall>k' \<in> set (keys enc).
                 py_str k' = py_str k \<longrightarrow> type_name k' = type_name k"
  shows "retype_keys np (PyDict (dict_of (map (\<lambda>k. (py_str k, type_name k)) (keys enc)))) enc
           = Inr (dict_of enc)"
proof -
  let ?kt = "PyDict (dict_of (map (\<lambda>k. (py_str k, type_name k)) (keys enc)))"
  let ?f = "\<lambda>(k, v :: pyval). case tag_getitem ?kt (py_str k) of
                       Inl e \<Rightarrow> Inl e
                     | Inr t \<Rightarrow> (case load_value_to_type np k t of
                                   Inl e \<Rightarrow> Inl e
                                 | Inr k' \<Rightarrow> Inr (k', v))"
  have "?f x = Inr (id x)" if x: "x \<in> set enc" for x
  proof -
    obtain k v where kv: "x = (k, v)" by (cases x)
    from x have k: "k \<in> set (keys enc)" by (force simp: kv keys_def)
    from same k have "\<forall>k' \<in> set (keys enc). py_str k' = py_str k \<longrightarrow> type_name k' = type_name k"
      by blast
    from own_tag_lookup[OF k this] load_own_type[of k np] np k show ?thesis
      by (simp add: kv)
  qed
  then have "for_each ?f enc = Inr (map id enc)" by (rule for_each_all)
  then show ?thesis by (simp add: retype_keys_def)
qed

subsection \<open>The discovered encoder\<close>

lemma zip_ids:
  assumes "distinct labels"
  shows "dict_of (zip labels (map (\<lambda>n. PInt (int n)) [0..<length labels])) =
           zip labels (map (\<lambda>n. PInt (int n)) [0..<length labels])"
  by (rule dict_of_distinct) (simp add: assms)

lemma get_label_encoder_discovered:
  assumes "label_encoder self = None" and "encoder_key_type self = None"
    and "discover_labels data = Inr labels"
    and "\<forall>k \<in> set labels. is_int k \<longrightarrow> np ''int'' k = Inr k"
  shows "\<exists>s'. get_label_encoder np self data
                 = (Inr (zip labels (map (\<lambda>n. PInt (int n)) [0..<length labels])), s') \<and>
               label_encoder s' = Some (zip labels (map (\<lambda>n. PInt (int n)) [0..<length labels]))"
proof -
  let ?enc = "zip labels (map (\<lambda>n. PInt (int n)) [0..<length labels])"
  from discover_labels_Inr[OF assms(3)] obtain L where
    L: "distinct L" "sorted_py L = Inr labels" by blast
  from sorted_py_distinct[OF L(2,1)] have d: "distinct labels" .
  have k: "keys ?enc = labels" by (simp add: keys_def)
  from zip_ids[OF d] assms(1,3)
  have o: "obtain_encoder self data = Inr (self\<lparr>label_encoder := Some ?enc\<rparr>, ?enc)"
    by (simp add: obtain_encoder_def Let_def)
  have kt: "key_tags (self\<lparr>label_encoder := Some ?enc\<rparr>) ?enc
              = PyDict (dict_of (map (\<lambda>k. (py_str k, type_name k)) (keys ?enc)))"
    using assms(2) by (simp add: key_tags_def)
  have same: "\<forall>k \<in> set (keys ?enc). \<forall>k' \<in> set (keys ?enc).
                 py_str k' = py_str k \<longrightarrow> type_name k' = type_name k"
    unfolding k using sorted_py_same_type[OF L(2)] by blast
  have np: "\<forall>k \<in> set (keys ?enc). is_int k \<longrightarrow> np ''int'' k = Inr k"
    unfolding k using assms(4) .
  have de: "dict_of ?enc = ?enc" using zip_ids[OF d] .
  from retype_keys_own[where np = np and enc = ?enc, OF np same] de
  have "retype_keys np (key_tags (self\<lparr>label_encoder := Some ?enc\<rparr>) ?enc) ?enc = Inr ?enc"
    by (simp only: kt)
  then show ?thesis
    by (simp add: get_label_encoder_def o Let_def)
qed

lemma discovery_succeeds:
  assumes "label_encoder self = None" and "encoder_key_type self = None"
    and "\<forall>i. np ''int'' (PInt i) = Inr (PInt i)"
    and "uniform_kind data" and "rows data \<noteq> []"
    and "list_all is_int (dataset_labels data) \<or> list_all is_str (dataset_labels data)"
  shows "\<exists>enc s'. get_label_encoder np self data = (Inr enc, s')"
proof -
  from discover_labels_uniform[OF assms(4,5)] obtain L where
    L: "set L = set (dataset_labels data)" "discover_labels data = sorted_py L" by blast
  from assms(6) L(1) have "list_all is_int L \<or> list_all is_str L"
    by (simp add: list_all_iff)
  then have "\<exists>labels. sorted_py L = Inr labels"
    by (cases "list_all is_int L") (simp_all add: sorted_py_def)
  then obtain labels where "sorted_py L = Inr labels" by blast
  with L(2) have dl: "discover_labels data = Inr labels" by simp
  have np: "\<forall>k \<in> set labels. is_int k \<longrightarrow> np ''int'' k = Inr k"
  proof (intro ballI impI)
    fix k assume "is_int k"
    then obtain i where "k = PInt i" by (cases k) auto
    with assms(3) show "np ''int'' k = Inr k" by simp
  qed
  from get_label_encoder_discovered[where np = np, OF assms(1,2) dl np] show ?thesis by blast
qed

text \<open>
  Claim C3. On a component that has neither an encoder nor key tags, with numpy's
  \<^verbatim>\<open>int\<close> returning an integer as it is, the encoder that \<open>get_label_encoder\<close>
  returns is also the one it leaves in the component; its keys are exactly the labels
  of the dataset, each once; its values are pairwise distinct and are exactly the ids
  \<open>0\<close> to \<open>n - 1\<close>, where \<open>n\<close> is the number of distinct labels.
\<close>

theorem discovered_encoder_bijective:
  assumes "label_encoder self = None" and "encoder_key_type self = None"
    and "\<forall>i. np ''int'' (PInt i) = Inr (PInt i)"
    and "get_label_encoder np self data = (Inr enc, s')"
  shows "label_encoder s' = Some enc \<and>
         set (keys enc) = set (dataset_labels data) \<and>
         distinct (keys enc) \<and> distinct (vals enc) \<and>
         set (vals enc) = (\<lambda>n. PInt (int n)) ` {0..<card (set (dataset_labels data))}"
proof -
  from assms(4) obtain labels where dl: "discover_labels data = Inr labels"
    using assms(1)
    by (cases "discover_labels data") (auto simp: get_label_encoder_def obtain_encoder_def)
  have np: "\<forall>k \<in> set labels. is_int k \<longrightarrow> np ''int'' k = Inr k"
  proof (intro ballI impI)
    fix k assume "is_int k"
    then obtain i where "k = PInt i" by (cases k) auto
    with assms(3) show "np ''int'' k = Inr k" by simp
  qed
  let ?enc = "zip labels (map (\<lambda>n. PInt (int n)) [0..<length labels])"
  from get_label_encoder_discovered[where np = np, OF assms(1,2) dl np] assms(4)
  have enc: "enc = ?enc" and st: "label_encoder s' = Some enc" by auto
  from discover_labels_Inr[OF dl] obtain L where
    L: "distinct L" "set L = set (dataset_labels data)" "sorted_py L = Inr labels" by blast
  from sorted_py_distinct[OF L(3,1)] have d: "distinct labels" .
  from sorted_py_set[OF L(3)] L(2) have sl: "set labels = set (dataset_labels data)" by simp
  have card: "card (set (dataset_labels data)) = length labels"
    using d sl by (metis distinct_card)
  have k: "keys enc = labels" and v: "vals enc = map (\<lambda>n. PInt (int n)) [0..<length labels]"
    by (simp_all add: enc keys_def vals_def)
  have dv: "distinct (vals enc)"
    unfolding v by (simp add: distinct_map inj_on_def)
  have sv: "set (vals enc) = (\<lambda>n. PInt (int n)) ` {0..<card (set (dataset_labels data))}"
    unfolding v card by simp
  from st k d sl dv sv show ?thesis by simp
qed


theorem discovered_encoder_bijective_witness:
  "label_encoder fresh = None \<and> encoder_key_type fresh = None \<and>
   (\<forall>i. np_int_alias ''int'' (PInt i) = Inr (PInt i)) \<and>
   fst (get_label_encoder np_int_alias fresh ages) = Inr [(PInt 3, PInt 0), (PInt 5, PInt 1)] \<and>
   label_encoder (snd (get_label_encoder np_int_alias fresh ages))
     = Some [(PInt 3, PInt 0), (PInt 5, PInt 1)] \<and>
   set (vals [(PInt 3, PInt 0), (PInt 5, PInt 1)])
     = (\<lambda>n. PInt (int n)) ` {0..<card (set (dataset_labels ages))}"
proof -
  have a: "label_encoder fresh = None" and b: "encoder_key_type fresh = None"
    by (simp_all add: fresh_def init_model_def)
  have c: "\<forall>i. np_int_alias ''int'' (PInt i) = Inr (PInt i)"
    by (simp add: np_int_alias_def)
  have e: "fst (get_label_encoder np_int_alias fresh ages) = Inr [(PInt 3, PInt 0), (PInt 5, PInt 1)]"
    by code_simp
  then have d: "get_label_encoder np_int_alias fresh ages
      = (Inr [(PInt 3, PInt 0), (PInt 5, PInt 1)], snd (get_label_encoder np_int_alias fresh ages))"
    by (simp add: prod_eq_iff)
  from discovered_encoder_bijective[OF a b c d] a b c e show ?thesis by simp
qed

lemma sorted_pets: "sorted_py [PStr ''cat'', PStr ''dog'', PStr ''fish'']
                      = Inr [PStr ''cat'', PStr ''dog'', PStr ''fish'']"
  by (simp add: sorted_py_def)

text \<open>
  Claim C5, as amended. When the labels of a dataset are \<^verbatim>\<open>"cat"\<close>, \<^verbatim>\<open>"dog"\<close> and
  \<^verbatim>\<open>"fish"\<close>, a component without encoder and key tags builds the encoder
  \<^verbatim>\<open>{"cat": 0, "dog": 1, "fish": 2}\<close>, and a training record with the label \<^verbatim>\<open>"dog"\<close>
  is rewritten to the label \<open>1\<close>.
\<close>

theorem worked_example:
  assumes "label_encoder self = None" and "encoder_key_type self = None"
    and "uniform_kind data"
    and "set (dataset_labels data) = {PStr ''cat'', PStr ''dog'', PStr ''fish''}"
  shows "fst (get_label_encoder np self data) = Inr pets_encoder \<and>
         replace_instance_label (TrainingRecord \<lparr>label = PStr ''dog'', features = x\<rparr>) pets_encoder
           = Inr (TrainingRecord \<lparr>label = PInt 1, features = x\<rparr>)"
proof -
  from assms(3,4) uniform_kind_empty[of data] have "rows data \<noteq> []" by auto
  from discover_labels_uniform[OF assms(3) this] obtain L where
    L: "distinct L" "set L = set (dataset_labels data)" "discover_labels data = sorted_py L" by blast
  have "sorted_py L = sorted_py [PStr ''cat'', PStr ''dog'', PStr ''fish'']"
    by (rule sorted_py_order_free) (use L assms(4) in simp_all)
  with L(3) sorted_pets have dl: "discover_labels data = Inr [PStr ''cat'', PStr ''dog'', PStr ''fish'']"
    by simp
  have np: "\<forall>k \<in> set [PStr ''cat'', PStr ''dog'', PStr ''fish'']. is_int k \<longrightarrow> np ''int'' k = Inr k"
    by simp
  from get_label_encoder_discovered[where np = np, OF assms(1,2) dl np]
  have "fst (get_label_encoder np self data) = Inr pets_encoder"
    by (auto simp: pets_encoder_def upt_rec)
  moreover have "replace_instance_label (TrainingRecord \<lparr>label = PStr ''dog'', features = x\<rparr>) pets_encoder
           = Inr (TrainingRecord \<lparr>label = PInt 1, features = x\<rparr>)"
    by (simp add: replace_instance_label_def getitem_def dict_get_def pets_encoder_def)
  ultimately show ?thesis by simp
qed

theorem worked_example_witness:
  "label_encoder fresh = None \<and> encoder_key_type fresh = None \<and> uniform_kind pets \<and>
   set (dataset_labels pets) = {PStr ''cat'', PStr ''dog'', PStr ''fish''} \<and>
   fst (get_label_encoder np_int_alias fresh pets) = Inr pets_encoder \<and>
   replace_instance_label
     (TrainingRecord \<lparr>label = PStr ''dog'', features = ()\<rparr> :: (unit, string) row_value) pets_encoder
     = Inr (TrainingRecord \<lparr>label = PInt 1, features = ()\<rparr>)"
proof -
  have a: "label_encoder fresh = None" and b: "encoder_key_type fresh = None"
    by (simp_all add: fresh_def init_model_def)
  have c: "uniform_kind pets"
    by (simp add: uniform_kind_def all_training_def pets_def training_row_def)
  have d: "set (dataset_labels pets) = {PStr ''cat'', PStr ''dog'', PStr ''fish''}"
    by (auto simp: dataset_labels_def pets_def training_row_def)
  from worked_example[OF a b c d, of np_int_alias "()"] a b c d show ?thesis by simp
qed

text \<open>The worked example of the specification has the record with the label
  \<^verbatim>\<open>"dog"\<close> rewritten to \<open>2\<close>; under the encoder of the example that is not what
  the rewrite returns.\<close>

theorem dog_is_not_two:
  "fst (get_label_encoder np_int_alias fresh pets) = Inr pets_encoder \<and>
   replace_instance_label
     (TrainingRecord \<lparr>label = PStr ''dog'', features = ()\<rparr> :: (unit, string) row_value) pets_encoder
     \<noteq> Inr (TrainingRecord \<lparr>label = PInt 2, features = ()\<rparr>)"
proof -
  have "fst (get_label_encoder np_int_alias fresh pets) = Inr pets_encoder"
    by code_simp
  moreover have "replace_instance_label
     (TrainingRecord \<lparr>label = PStr ''dog'', features = ()\<rparr> :: (unit, string) row_value) pets_encoder
     \<noteq> Inr (TrainingRecord \<lparr>label = PInt 2, features = ()\<rparr>)"
    by (simp add: replace_instance_label_def getitem_def dict_get_def pets_encoder_def)
  ultimately show ?thesis by simp
qed

section \<open>The direction of the rewrite\<close>

lemma replace_instance_label_Inr:
  assumes "replace_instance_label v m = Inr v'"
  shows "isinstance_Instance v \<and> rewrite_labels m v = Some v'"
  using assms
  by (cases v) (auto simp: replace_instance_label_def getitem_def split: option.splits)

lemma detail_mapped:
  assumes "for_each (\<lambda>(l, score). case getitem m l of Inl e \<Rightarrow> Inl e | Inr l' \<Rightarrow> Inr (l', score)) d
             = Inr ps"
  shows "set (keys d) \<subseteq> set (keys m)"
proof (rule ccontr)
  assume "\<not> set (keys d) \<subseteq> set (keys m)"
  then have "\<exists>l \<in> set (keys d). l \<notin> set (keys m)" by blast
  from detail_unmapped[OF this] assms show False by auto
qed

lemma replace_predict_label_Inr:
  assumes "replace_predict_label v m = Inr v'"
  shows "\<not> isinstance_Instance v \<and> rewrite_labels m v = Some v'"
proof (cases v)
  case (TrainingRecord inst)
  with assms show ?thesis by (simp add: replace_predict_label_def)
next
  case (PredictionResult p)
  from assms obtain t where t: "getitem m (true_label p) = Inr t"
    by (cases "getitem m (true_label p)") (auto simp: PredictionResult replace_predict_label_def)
  from assms t obtain q where q: "getitem m (predict_label p) = Inr q"
    by (cases "getitem m (predict_label p)") (auto simp: PredictionResult replace_predict_label_def)
  let ?f = "\<lambda>(l, score :: 'b). case getitem m l of Inl e \<Rightarrow> Inl e | Inr l' \<Rightarrow> Inr (l', score)"
  from assms t q obtain ps where ps: "for_each ?f (predict_detail p) = Inr ps"
    by (cases "for_each ?f (predict_detail p)") (auto simp: PredictionResult replace_predict_label_def)
  from detail_mapped[OF ps] have d: "set (keys (predict_detail p)) \<subseteq> set (keys m)" .
  from remap_detail[OF d] ps
  have pse: "ps = map (\<lambda>(l, score). (the (dict_get m l), score)) (predict_detail p)" by simp
  from t have tk: "true_label p \<in> set (keys m)" "dict_get m (true_label p) = Some t"
    using dict_get_None[of m "true_label p"] by (auto simp: getitem_def split: option.splits)
  from q have qk: "predict_label p \<in> set (keys m)" "dict_get m (predict_label p) = Some q"
    using dict_get_None[of m "predict_label p"] by (auto simp: getitem_def split: option.splits)
  from assms t q ps have "v' = PredictionResult \<lparr>true_label = t, predict_label = q,
        predict_score = predict_score p, predict_detail = dict_of ps\<rparr>"
    by (simp add: PredictionResult replace_predict_label_def)
  with tk qk d pse show ?thesis
    by (simp add: PredictionResult list_all_iff subset_iff)
qed

lemma mapValues_Inr:
  assumes "mapValues f data = Inr out"
  shows "list_all2 (\<lambda>(k, v) (k', v'). k' = k \<and> f v = Inr v') (rows data) (rows out)"
proof -
  let ?g = "\<lambda>(k, v). case f v of Inl e \<Rightarrow> Inl e | Inr v' \<Rightarrow> Inr (k, v')"
  from assms obtain rs where rs: "for_each ?g (rows data) = Inr rs" "rows out = rs"
    by (cases "for_each ?g (rows data)") (auto simp: mapValues_def)
  from for_each_Inr[OF rs(1)] have "list_all2 (\<lambda>x y. ?g x = Inr y) (rows data) rs" .
  then have "list_all2 (\<lambda>(k, v) (k', v'). k' = k \<and> f v = Inr v') (rows data) rs"
    by (rule list_all2_mono) (auto split: sum.splits)
  with rs(2) show ?thesis by simp
qed

lemma list_all2_lefts:
  "list_all2 P xs ys \<Longrightarrow> (\<And>x y. P x y \<Longrightarrow> Q x) \<Longrightarrow> list_all Q xs"
  by (induction rule: list_all2_induct) auto

lemma transform_data_label_Inr:
  assumes "transform_data_label data m = Inr out"
  shows "\<exists>k v. first data = Inr (k, v) \<and>
           (if isinstance_Instance v then all_training data else all_prediction data) \<and>
           list_all2 (\<lambda>(k, v) (k', v'). k' = k \<and> rewrite_labels m v = Some v') (rows data) (rows out)"
proof -
  from assms obtain k v where f: "first data = Inr (k, v)"
    by (cases "first data") (auto simp: transform_data_label_def)
  show ?thesis
  proof (cases "isinstance_Instance v")
    case True
    with assms f have "mapValues (\<lambda>v. replace_instance_label v m) data = Inr out"
      by (simp add: transform_data_label_def)
    from mapValues_Inr[OF this]
    have l: "list_all2 (\<lambda>(k, v) (k', v'). k' = k \<and> replace_instance_label v m = Inr v') (rows data) (rows out)" .
    then have "list_all2 (\<lambda>(k, v) (k', v'). k' = k \<and> rewrite_labels m v = Some v') (rows data) (rows out)"
      by (rule list_all2_mono) (auto dest: replace_instance_label_Inr)
    moreover have "list_all (\<lambda>(k, v). isinstance_Instance v) (rows data)"
      by (rule list_all2_lefts[OF l]) (auto dest: replace_instance_label_Inr)
    ultimately show ?thesis using f True by (simp add: all_training_def)
  next
    case False
    with assms f have "mapValues (\<lambda>v. replace_predict_label v m) data = Inr out"
      by (simp add: transform_data_label_def)
    from mapValues_Inr[OF this]
    have l: "list_all2 (\<lambda>(k, v) (k', v'). k' = k \<and> replace_predict_label v m = Inr v') (rows data) (rows out)" .
    then have "list_all2 (\<lambda>(k, v) (k', v'). k' = k \<and> rewrite_labels m v = Some v') (rows data) (rows out)"
      by (rule list_all2_mono) (auto dest: replace_predict_label_Inr)
    moreover have "list_all (\<lambda>(k, v). \<not> isinstance_Instance v) (rows data)"
      by (rule list_all2_lefts[OF l]) (auto dest: replace_predict_label_Inr)
    ultimately show ?thesis using f False by (simp add: all_prediction_def)
  qed
qed

lemma inverse_encoder_swaps:
  "distinct (vals enc) \<Longrightarrow> inverse_encoder enc = map (\<lambda>(k, v). (v, k)) enc"
proof -
  assume d: "distinct (vals enc)"
  have z: "zip (vals enc) (keys enc) = map (\<lambda>(k, v). (v, k)) enc"
    by (induction enc) (auto simp: vals_def keys_def)
  have "map fst (zip (vals enc) (keys enc)) = vals enc"
    by (simp add: vals_def keys_def)
  with d have "dict_of (zip (vals enc) (keys enc)) = zip (vals enc) (keys enc)"
    by (simp add: dict_of_distinct)
  with z show ?thesis by (simp add: inverse_encoder_def)
qed

lemma transform_Inr:
  assumes "transform self data = Inr out"
  shows "\<exists>enc. label_encoder self = Some enc \<and>
           (all_training data \<and> rewritten_by enc data out \<or>
            all_prediction data \<and> rewritten_by (inverse_encoder enc) data out)"
proof -
  from assms obtain enc where enc: "label_encoder self = Some enc"
    by (cases "label_encoder self") (auto simp: transform_def)
  from assms enc obtain k v where f: "first data = Inr (k, v)"
    by (cases "first data") (auto simp: transform_def)
  let ?m = "if \<not> isinstance_Instance v then inverse_encoder enc else enc"
  from assms enc f obtain r where r: "transform_data_label data ?m = Inr r"
    and out: "out = r\<lparr>schema := schema data\<rparr>"
    by (cases "transform_data_label data ?m") (auto simp: transform_def Let_def)
  from transform_data_label_Inr[OF r] f
  have k: "if isinstance_Instance v then all_training data else all_prediction data"
    and l: "list_all2 (\<lambda>(k, v) (k', v'). k' = k \<and> rewrite_labels ?m v = Some v') (rows data) (rows r)"
    by auto
  from l out have "rewritten_by ?m data out" by (simp add: rewritten_by_def)
  with k enc show ?thesis by (cases "isinstance_Instance v") auto
qed

lemma fit_Inr:
  assumes "fst (fit np self data) = Inr out"
  shows "\<exists>enc. fst (get_label_encoder np self data) = Inr enc \<and>
           label_encoder (snd (fit np self data)) = Some enc \<and>
           uniform_kind data \<and> rewritten_by enc data out"
proof -
  obtain r s1 where g: "get_label_encoder np self data = (r, s1)"
    by (cases "get_label_encoder np self data")
  from assms g obtain enc where enc: "r = Inr enc"
    by (cases r) (auto simp: fit_def)
  from assms g enc obtain t where t: "transform_data_label data enc = Inr t"
    and out: "out = t\<lparr>schema := schema data\<rparr>"
    by (cases "transform_data_label data enc") (auto simp: fit_def Let_def)
  from transform_data_label_Inr[OF t]
  have l: "list_all2 (\<lambda>(k, v) (k', v'). k' = k \<and> rewrite_labels enc v = Some v') (rows data) (rows t)"
    by auto
  from transform_data_label_Inr[OF t] have "uniform_kind data"
    by (auto simp: uniform_kind_def split: if_splits)
  moreover from l out have "rewritten_by enc data out" by (simp add: rewritten_by_def)
  moreover have "label_encoder (snd (fit np self data)) = Some enc"
    by (simp add: fit_def g enc t Let_def)
  ultimately show ?thesis by (simp add: g enc)
qed

text \<open>
  Claim C2, as amended. When \<open>transform\<close> returns a dataset, the component has an
  encoder and the dataset is either one of training records, rewritten by the encoder
  itself (Forward), or one of prediction results, rewritten by the inverse encoder.
  When \<open>fit\<close> returns a dataset, the records are of one kind and the dataset is
  rewritten by the encoder that \<open>get_label_encoder\<close> returned and \<open>fit\<close> stored in the
  component (Forward), for training records and for prediction results alike. The
  inverse encoder of an encoder with pairwise distinct values is the encoder with
  keys and values swapped.
\<close>

theorem direction_of_rewrite:
  "(transform self data = Inr out \<longrightarrow>
      (\<exists>enc. label_encoder self = Some enc \<and>
         (all_training data \<and> rewritten_by enc data out \<or>
          all_prediction data \<and> rewritten_by (inverse_encoder enc) data out))) \<and>
   (fst (fit np self' data' ) = Inr out' \<longrightarrow>
      (\<exists>enc. fst (get_label_encoder np self' data') = Inr enc \<and>
         label_encoder (snd (fit np self' data')) = Some enc \<and>
         uniform_kind data' \<and> rewritten_by enc data' out')) \<and>
   (distinct (vals e) \<longrightarrow> inverse_encoder e = map (\<lambda>(k, v). (v, k)) e)"
  using transform_Inr[of self data out] fit_Inr[of np self' data' out'] inverse_encoder_swaps[of e]
  by blast

theorem direction_of_rewrite_witness:
  "transform trained encoded_predictions = Inr decoded_predictions \<and>
   fst (fit np_int_alias fresh pets) = Inr fitted_pets \<and>
   distinct (vals pets_encoder) \<and>
   rewritten_by (inverse_encoder pets_encoder) encoded_predictions decoded_predictions \<and>
   rewritten_by pets_encoder pets fitted_pets \<and>
   inverse_encoder pets_encoder = map (\<lambda>(k, v). (v, k)) pets_encoder"
proof -
  have a: "transform trained encoded_predictions = Inr decoded_predictions"
    by code_simp
  have b: "fst (fit np_int_alias fresh pets) = Inr fitted_pets"
    by code_simp
  have c: "distinct (vals pets_encoder)"
    by (simp add: pets_encoder_def vals_def)
  have d: "\<not> all_training encoded_predictions"
    by (simp add: all_training_def encoded_predictions_def)
  have e: "label_encoder trained = Some pets_encoder"
    by (simp add: trained_def init_model_def)
  have f: "fst (get_label_encoder np_int_alias fresh pets) = Inr pets_encoder"
    by code_simp
  from direction_of_rewrite[of trained encoded_predictions decoded_predictions
      np_int_alias fresh pets fitted_pets pets_encoder] a b c d e f
  show ?thesis by auto
qed

text \<open>The specification has \<open>fit\<close> rewrite prediction results by the inverse map. On a dataset of one prediction result with the labels \<^verbatim>\<open>"dog"\<close> and \<^verbatim>\<open>"cat"\<close>,
  \<open>fit\<close> returns the records rewritten by the encoder it has just built, and that
  dataset is not a rewriting by the inverse encoder, which has no entry for a raw
  label.\<close>

theorem fit_does_not_invert:
  "fst (fit np_int_alias fresh raw_predictions) = Inr fitted_predictions \<and>
   label_encoder (snd (fit np_int_alias fresh raw_predictions))
     = Some [(PStr ''cat'', PInt 0), (PStr ''dog'', PInt 1)] \<and>
   rewritten_by [(PStr ''cat'', PInt 0), (PStr ''dog'', PInt 1)]
     raw_predictions fitted_predictions \<and>
   \<not> rewritten_by (inverse_encoder [(PStr ''cat'', PInt 0), (PStr ''dog'', PInt 1)])
     raw_predictions fitted_predictions"
  by code_simp

section \<open>Export and load\<close>

lemma unpack_pair_int: "unpack_pair (PInt i) = Inl TypeError"
  by (simp add: unpack_pair_def)

lemma unpack_pair_str: "length s \<noteq> 2 \<Longrightarrow> \<exists>m. unpack_pair (PStr s) = Inl (ValueError m)"
  by (auto simp: unpack_pair_def split: list.splits)

lemma get_param_first_key:
  "label_encoder self = Some ((k, v) # enc) \<Longrightarrow> unpack_pair k = Inl e \<Longrightarrow> get_param self = Inl e"
  by (simp add: get_param_def keys_def)

text \<open>
  Claim C1. The round trip starts with \<open>export_model\<close>, and \<open>export_model\<close> raises on
  the encoders the component builds: the comprehension of \<^verbatim>\<open>_get_param\<close> iterates the
  dictionary itself, which yields its keys, and unpacks each key into two names. On
  the encoder fitted to the labels \<^verbatim>\<open>"cat"\<close>, \<^verbatim>\<open>"dog"\<close>, \<^verbatim>\<open>"fish"\<close> it raises
  \<^verbatim>\<open>ValueError\<close>, on the encoder fitted to the labels \<open>3\<close> and \<open>5\<close> it raises
  \<^verbatim>\<open>TypeError\<close>; no record is exported for \<open>load_model\<close> to read.
\<close>

theorem export_model_raises:
  "fst (export_model (snd (fit np_int_alias fresh pets)))
     = Inl (ValueError ''too many values to unpack (expected 2)'') \<and>
   fst (export_model (snd (fit np_int_alias fresh ages))) = Inl TypeError"
  by code_simp

end
